theory Spec2Isabelle
  imports Complex_Main
begin

section \<open>Python values, exceptions and the standard-library helpers the handlers use\<close>

text \<open>
  The handlers of \<^verbatim>\<open>src/core/routes.py\<close> and the wrapper of
  \<^verbatim>\<open>src/core/llm_engine.py\<close> pass around what \<^verbatim>\<open>json\<close> produces: dicts, lists,
  strings, numbers, booleans and \<^verbatim>\<open>None\<close>. A dict is an association list (Python dicts
  keep insertion order); a lookup takes the first binding of a key. Floating-point numbers
  do not occur in any value the handlers inspect and are left out.
\<close>

datatype json =
    JNull
  | JBool bool
  | JNum int
  | JStr string
  | JArr "json list"
  | JObj "(string \<times> json) list"

text \<open>
  Exceptions are values. \<open>HTTPException\<close> carries the status code and the detail; a detail
  built by an f-string around \<^verbatim>\<open>str(e)\<close> keeps the literal prefix and the exception it
  was built from, so that no message text of the interpreter has to be guessed.
  \<open>LibraryError\<close> is an exception raised inside an external collaborator (the document
  service client, \<^verbatim>\<open>json\<close>), carrying its \<^verbatim>\<open>str(e)\<close>.
\<close>

datatype py_exc =
    KeyError json
  | TypeError
  | AttributeError
  | JSONDecodeError
  | ValidationError
  | LibraryError string
  | HTTPException nat detail
and detail =
    Detail string
  | DetailExc string py_exc
  | DetailValue json

text \<open>\<^verbatim>\<open>d[key]\<close> with a string key: only a dict can be subscripted by a string.\<close>

fun getitem :: "json \<Rightarrow> string \<Rightarrow> py_exc + json" where
  "getitem (JObj kvs) key =
     (case map_of kvs key of None \<Rightarrow> Inl (KeyError (JStr key)) | Some v \<Rightarrow> Inr v)"
| "getitem _ key = Inl TypeError"

text \<open>
  \<^verbatim>\<open>for x in v\<close>: a list yields its elements, a dict its keys, a string its characters
  (as one-character strings); anything else is not iterable.
\<close>

fun py_iter :: "json \<Rightarrow> py_exc + json list" where
  "py_iter (JArr xs) = Inr xs"
| "py_iter (JObj kvs) = Inr (map (\<lambda>kv. JStr (fst kv)) kvs)"
| "py_iter (JStr s) = Inr (map (\<lambda>c. JStr [c]) s)"
| "py_iter _ = Inl TypeError"

text \<open>\<^verbatim>\<open>sep.join(xs)\<close> on a list of strings.\<close>

fun join :: "string \<Rightarrow> string list \<Rightarrow> string" where
  "join sep [] = []"
| "join sep [x] = x"
| "join sep (x # y # ys) = x @ sep @ join sep (y # ys)"

text \<open>\<^verbatim>\<open>s.lower()\<close> and \<^verbatim>\<open>s.endswith(suffix)\<close>, on ASCII text.\<close>

definition lower_char :: "char \<Rightarrow> char" where
  "lower_char c =
     (case map_of (zip ''ABCDEFGHIJKLMNOPQRSTUVWXYZ'' ''abcdefghijklmnopqrstuvwxyz'') c of
        Some l \<Rightarrow> l
      | None \<Rightarrow> c)"

definition lower :: "string \<Rightarrow> string" where
  "lower s = map lower_char s"

definition endswith :: "string \<Rightarrow> string \<Rightarrow> bool" where
  "endswith s suffix =
     (length suffix \<le> length s \<and> drop (length s - length suffix) s = suffix)"

text \<open>
  \<^verbatim>\<open>os.path.join(a, b)\<close> with two components, on a POSIX system: an absolute second
  component replaces the first; otherwise one separator stands between them unless the
  first is empty or already ends with one.
\<close>

definition os_path_join :: "string \<Rightarrow> string \<Rightarrow> string" where
  "os_path_join a b =
     (if b \<noteq> [] \<and> hd b = CHR ''/'' then b
      else if a = [] \<or> last a = CHR ''/'' then a @ b
      else a @ ''/'' @ b)"

text \<open>\<^verbatim>\<open>str(n)\<close> for a status code.\<close>

definition digit :: "nat \<Rightarrow> char" where
  "digit d = ''0123456789'' ! d"

function str_nat :: "nat \<Rightarrow> string" where
  "str_nat n = (if n < 10 then [digit n] else str_nat (n div 10) @ [digit (n mod 10)])"
  by pat_completeness auto
termination
  by (relation "measure id") auto

declare str_nat.simps [simp del]

section \<open>Configuration (\<^verbatim>\<open>src/core/config.py\<close>)\<close>

text \<open>
  The settings are read from the environment at start-up, so they are a parameter; the
  record lists the options the handlers read.
\<close>

record settings =
  PDF_STORAGE_PATH :: string
  MAX_FILE_SIZE :: int
  LLM_TEMPERATURE :: real
  LLM_MAX_TOKENS :: int
  URL_CUSTOM_LLM :: string
  TOKEN_CUSTOM_LLM :: string

section \<open>The LLM call wrapper (\<^verbatim>\<open>src/core/llm_engine.py\<close>)\<close>

record payload =
  model :: string
  messages :: "(string \<times> string) list"
  max_tokens :: int
  temperature :: real
  stream :: bool

record request =
  url :: string
  headers :: "(string \<times> string) list"
  json_payload :: payload

text \<open>
  What one \<^verbatim>\<open>client.post\<close> does: it raises (the transport failed or timed out; the
  string is \<^verbatim>\<open>str(e)\<close>), or it returns a response. \<open>content\<close> is the evaluation of
  \<^verbatim>\<open>response.json()['choices'][0]['message']['content']\<close>: the value, or the
  \<^verbatim>\<open>str(e)\<close> of the exception it raises on a body of another shape.
\<close>

record http_response =
  status_code :: nat
  content :: "string + json"

datatype http_outcome = Responds http_response | Raises string

text \<open>
  The external world of one request: the document service client, the clock, the id
  generator, \<^verbatim>\<open>json.dumps\<close> and \<^verbatim>\<open>json.loads\<close>, the two printing helpers of
  \<^verbatim>\<open>pageindex.utils\<close> (\<open>None\<close>: printed and returned; \<open>Some e\<close>: raised \<open>e\<close>) and the HTTP
  transport. \<open>http_post k r\<close> is the outcome of posting \<open>r\<close> when \<open>k\<close> posts were made
  before it in this request, so a first attempt may fail and its retry succeed.
\<close>

record env =
  uuid4 :: string
  utcnow :: nat
  is_retrieval_ready :: "json \<Rightarrow> py_exc + bool"
  get_tree :: "json \<Rightarrow> py_exc + json"
  submit_document :: "(string \<rightharpoonup> string) \<Rightarrow> string \<Rightarrow> py_exc + json"
  json_dumps :: "json \<Rightarrow> string"
  json_loads :: "string \<Rightarrow> py_exc + json"
  print_wrapped :: "json \<Rightarrow> py_exc option"
  print_tree :: "json \<Rightarrow> py_exc option"
  http_post :: "nat \<Rightarrow> request \<Rightarrow> http_outcome"

definition error_dict :: "string \<Rightarrow> json" where
  "error_dict msg = JObj [(''error'', JStr msg)]"

text \<open>\<^verbatim>\<open>isinstance(result, dict) and "error" in result\<close>\<close>

fun is_error :: "json \<Rightarrow> bool" where
  "is_error (JObj kvs) = (map_of kvs ''error'' \<noteq> None)"
| "is_error _ = False"

definition mk_request :: "string \<Rightarrow> string \<Rightarrow> payload \<Rightarrow> request" where
  "mk_request u tok p =
     \<lparr>url = u,
      headers = [(''Content-Type'', ''application/json''), (''Accept'', ''application/json''),
                 (''x-api-key'', tok)],
      json_payload = p\<rparr>"

text \<open>
  \<open>make_async_api_call\<close> takes the log of the posts made so far and returns the result
  with the log extended by its own post. Every exception inside its \<^verbatim>\<open>try\<close> becomes
  the dict \<^verbatim>\<open>{"error": str(e)}\<close>.
\<close>

definition make_async_api_call ::
  "env \<Rightarrow> request list \<Rightarrow> string \<Rightarrow> string \<Rightarrow> payload \<Rightarrow> json \<times> request list" where
  "make_async_api_call e posts u tok p =
     (let r = mk_request u tok p in
      (case http_post e (length posts) r of
         Raises msg \<Rightarrow> error_dict msg
       | Responds resp \<Rightarrow>
           if status_code resp = 200 then
             (case content resp of Inr c \<Rightarrow> c | Inl msg \<Rightarrow> error_dict msg)
           else error_dict (''API call failed with status '' @ str_nat (status_code resp)),
       posts @ [r]))"

definition mk_payload :: "string \<Rightarrow> int \<Rightarrow> real \<Rightarrow> payload" where
  "mk_payload prompt max_tok temp =
     \<lparr>model = ''telkom-ai-instruct'',
      messages = [(''system'', prompt)],
      max_tokens = max_tok,
      temperature = temp,
      stream = False\<rparr>"

definition telkomllm_call ::
  "env \<Rightarrow> settings \<Rightarrow> request list \<Rightarrow> string \<Rightarrow> int \<Rightarrow> real \<Rightarrow> json \<times> request list" where
  "telkomllm_call e cfg posts prompt max_tok temp =
     (let p = mk_payload prompt max_tok temp;
          first = make_async_api_call e posts (URL_CUSTOM_LLM cfg) (TOKEN_CUSTOM_LLM cfg) p
      in if is_error (fst first)
         then make_async_api_call e (snd first) (URL_CUSTOM_LLM cfg) (TOKEN_CUSTOM_LLM cfg) p
         else first)"

section \<open>The document tree helpers of \<^verbatim>\<open>pageindex.utils\<close>\<close>

text \<open>
  Modelled from the spec: \<^verbatim>\<open>pi_utils.remove_fields\<close> is imported from the
  \<^verbatim>\<open>pageindex\<close> package and is not part of the sources. The spec has it return "the full
  tree with the \<^verbatim>\<open>text\<close> field stripped from every node": a copy of the value in which
  every dict, at every depth, has lost the named keys and everything else is kept. It
  builds new values; the tree it is given is not changed.
\<close>

fun remove_fields :: "json \<Rightarrow> string list \<Rightarrow> json" where
  "remove_fields (JObj kvs) names =
     JObj (map (\<lambda>(k, v). (k, remove_fields v names))
            (filter (\<lambda>(k, v). k \<notin> set names) kvs))"
| "remove_fields (JArr xs) names = JArr (map (\<lambda>x. remove_fields x names) xs)"
| "remove_fields d names = d"

text \<open>
  Modelled from the spec: \<^verbatim>\<open>pi_utils.create_node_mapping\<close> is imported from the
  \<^verbatim>\<open>pageindex\<close> package and is not part of the sources. The spec has it build "a
  flattened id\<rightarrow>node index" of the tree it is given. The tree is a list of nodes; a node is
  a dict whose children are the list under its key \<^verbatim>\<open>nodes\<close>. \<open>get_all_nodes\<close> flattens
  the tree in document order, and the index maps the \<^verbatim>\<open>node_id\<close> of every node that
  carries a string id to the node itself; of two nodes with one id the later one wins, as
  in a dict built in that order.
\<close>

function get_all_nodes :: "json \<Rightarrow> json list" where
  "get_all_nodes (JObj kvs) =
     JObj kvs # (case map_of kvs ''nodes'' of
                   Some (JArr cs) \<Rightarrow> concat (map get_all_nodes cs)
                 | _ \<Rightarrow> [])"
| "get_all_nodes (JArr xs) = concat (map get_all_nodes xs)"
| "get_all_nodes JNull = []"
| "get_all_nodes (JBool b) = []"
| "get_all_nodes (JNum n) = []"
| "get_all_nodes (JStr s) = []"
  by pat_completeness auto
termination
proof (relation "measure size")
  show "wf (measure size)" by simp
next
  fix kvs :: "(string \<times> json) list" and x2 :: json and x5 :: "json list" and x :: json
  assume a: "map_of kvs ''nodes'' = Some x2" "x2 = JArr x5" "x \<in> set x5"
  have "map_of kvs k = Some v \<Longrightarrow> size v < size (JObj kvs)" for k v
    by (induction kvs) (auto split: if_splits)
  moreover have "size x < Suc (size_list size x5)"
    using a(3) by (induction x5) auto
  ultimately show "(x, JObj kvs) \<in> measure size"
    using a(1,2) by force
next
  fix xs :: "json list" and x :: json
  assume "x \<in> set xs"
  then have "size x < Suc (size_list size xs)"
    by (induction xs) auto
  then show "(x, JArr xs) \<in> measure size" by simp
qed

fun index_node :: "json \<Rightarrow> (string \<rightharpoonup> json) \<Rightarrow> (string \<rightharpoonup> json)" where
  "index_node (JObj kvs) m =
     (case map_of kvs ''node_id'' of Some (JStr i) \<Rightarrow> m(i \<mapsto> JObj kvs) | _ \<Rightarrow> m)"
| "index_node _ m = m"

definition create_node_mapping :: "json \<Rightarrow> (string \<rightharpoonup> json)" where
  "create_node_mapping tree = fold index_node (get_all_nodes tree) Map.empty"

section \<open>The chat handler (\<^verbatim>\<open>chat_with_pdf\<close> in \<^verbatim>\<open>src/core/routes.py\<close>)\<close>

record pdf_info =
  filename :: string
  file_path :: string
  doc_id :: json
  upload_time :: nat

text \<open>
  The two module-level dicts and the files under the storage path (path to content).
\<close>

record server_state =
  pdf_storage :: "string \<rightharpoonup> pdf_info"
  doc_storage :: "string \<rightharpoonup> json"
  disk :: "string \<rightharpoonup> string"

record ChatRequest =
  message :: string
  pdf_id :: string
  session_id :: "string option"

record ChatResponse =
  response :: string
  response_session_id :: string
  timestamp :: nat

text \<open>The two f-strings, character for character; the arguments are the interpolated texts.\<close>

definition search_prompt :: "string \<Rightarrow> string \<Rightarrow> string" where
  "search_prompt question dumped_tree =
     ''\<newline>        You are given a question and a tree structure of a document.\<newline>'' @
     ''        Each node contains a node id, node title, and a corresponding summary.\<newline>'' @
     ''        Your task is to find all nodes that are likely to contain the answer to the question.\<newline>'' @
     ''\<newline>        Question: '' @ question @ ''\<newline>'' @
     ''\<newline>        Document tree structure:\<newline>        '' @ dumped_tree @ ''\<newline>'' @
     ''\<newline>        Please reply in the following JSON format:\<newline>        {\<newline>'' @
     ''            \"thinking\": \"<Your thinking process on which nodes are relevant to the question>\",\<newline>'' @
     ''            \"node_list\": [\"node_id_1\", \"node_id_2\", ..., \"node_id_n\"]\<newline>'' @
     ''        }\<newline>'' @
     ''        Directly return the final JSON structure. Do not output anything else.\<newline>        ''"

definition answer_prompt :: "string \<Rightarrow> string \<Rightarrow> string" where
  "answer_prompt question relevant =
     ''\<newline>        Answer the question based on the context:\<newline>'' @
     ''\<newline>        Question: '' @ question @ ''\<newline>'' @
     ''        Context: '' @ relevant @ ''\<newline>'' @
     ''\<newline>        Provide a clear, concise answer based only on the context provided.\<newline>        ''"

text \<open>\<^verbatim>\<open>tree.copy()\<close>: lists and dicts have the method; the copy has the same value.\<close>

fun py_copy :: "json \<Rightarrow> py_exc + json" where
  "py_copy (JArr xs) = Inr (JArr xs)"
| "py_copy (JObj kvs) = Inr (JObj kvs)"
| "py_copy _ = Inl AttributeError"

text \<open>\<^verbatim>\<open>json.loads(x)\<close>: only text is parsed; the error dict of a failed call is a \<open>TypeError\<close>.\<close>

fun py_json_loads :: "env \<Rightarrow> json \<Rightarrow> py_exc + json" where
  "py_json_loads e (JStr s) = json_loads e s"
| "py_json_loads e _ = Inl TypeError"

text \<open>
  \<^verbatim>\<open>node_map[node_id]\<close>: the keys of the index are strings, so a list or a dict is
  unhashable and every other value that is not one of the keys is a \<open>KeyError\<close>.
\<close>

fun node_map_getitem :: "(string \<rightharpoonup> json) \<Rightarrow> json \<Rightarrow> py_exc + json" where
  "node_map_getitem node_map (JStr i) =
     (case node_map i of None \<Rightarrow> Inl (KeyError (JStr i)) | Some node \<Rightarrow> Inr node)"
| "node_map_getitem node_map (JArr xs) = Inl TypeError"
| "node_map_getitem node_map (JObj kvs) = Inl TypeError"
| "node_map_getitem node_map k = Inl (KeyError k)"

text \<open>
  Lines 180 to 182, the loop that prints the retrieved nodes: each id is resolved and the
  node's \<^verbatim>\<open>node_id\<close>, \<^verbatim>\<open>page_index\<close> and \<^verbatim>\<open>title\<close> are read, in that order. \<open>None\<close>:
  the loop ran to its end.
\<close>

fun print_retrieved_nodes :: "(string \<rightharpoonup> json) \<Rightarrow> json list \<Rightarrow> py_exc option" where
  "print_retrieved_nodes node_map [] = None"
| "print_retrieved_nodes node_map (node_id # rest) =
     (case node_map_getitem node_map node_id of
        Inl e \<Rightarrow> Some e
      | Inr node \<Rightarrow>
          (case getitem node ''node_id'' of
             Inl e \<Rightarrow> Some e
           | Inr _ \<Rightarrow>
               (case getitem node ''page_index'' of
                  Inl e \<Rightarrow> Some e
                | Inr _ \<Rightarrow>
                    (case getitem node ''title'' of
                       Inl e \<Rightarrow> Some e
                     | Inr _ \<Rightarrow> print_retrieved_nodes node_map rest))))"

text \<open>
  Line 185: the generator \<^verbatim>\<open>node_map[node_id]["text"] for node_id in node_list\<close> is run
  to its end first, then \<^verbatim>\<open>"\n\n".join\<close> refuses an item that is not a string.
\<close>

fun node_texts :: "(string \<rightharpoonup> json) \<Rightarrow> json list \<Rightarrow> py_exc + json list" where
  "node_texts node_map [] = Inr []"
| "node_texts node_map (node_id # rest) =
     (case node_map_getitem node_map node_id of
        Inl e \<Rightarrow> Inl e
      | Inr node \<Rightarrow>
          (case getitem node ''text'' of
             Inl e \<Rightarrow> Inl e
           | Inr t \<Rightarrow>
               (case node_texts node_map rest of
                  Inl e \<Rightarrow> Inl e
                | Inr ts \<Rightarrow> Inr (t # ts))))"

fun the_strings :: "json list \<Rightarrow> string list option" where
  "the_strings [] = Some []"
| "the_strings (JStr s # rest) = map_option ((#) s) (the_strings rest)"
| "the_strings (_ # rest) = None"

definition relevant_content :: "(string \<rightharpoonup> json) \<Rightarrow> json list \<Rightarrow> py_exc + string" where
  "relevant_content node_map node_list =
     (case node_texts node_map node_list of
        Inl e \<Rightarrow> Inl e
      | Inr ts \<Rightarrow>
          (case the_strings ts of
             None \<Rightarrow> Inl TypeError
           | Some ss \<Rightarrow> Inr (join ''\<newline>\<newline>'' ss)))"

text \<open>
  Lines 174 to 185, between the two LLM calls: the index is built from the tree as it was
  fetched, the selection is parsed, its \<^verbatim>\<open>thinking\<close> is printed, the retrieved nodes are
  printed, the selection is parsed again and the texts of its nodes are joined.
\<close>

definition retrieve :: "env \<Rightarrow> json \<Rightarrow> json \<Rightarrow> py_exc + string" where
  "retrieve e tree tree_search_result =
     (let node_map = create_node_mapping tree in
      case py_json_loads e tree_search_result of
        Inl ex \<Rightarrow> Inl ex
      | Inr tree_search_result_json \<Rightarrow>
          (case getitem tree_search_result_json ''thinking'' of
             Inl ex \<Rightarrow> Inl ex
           | Inr thinking \<Rightarrow>
               (case print_wrapped e thinking of
                  Some ex \<Rightarrow> Inl ex
                | None \<Rightarrow>
                    (case getitem tree_search_result_json ''node_list'' of
                       Inl ex \<Rightarrow> Inl ex
                     | Inr ids \<Rightarrow>
                         (case py_iter ids of
                            Inl ex \<Rightarrow> Inl ex
                          | Inr node_ids \<Rightarrow>
                              (case print_retrieved_nodes node_map node_ids of
                                 Some ex \<Rightarrow> Inl ex
                               | None \<Rightarrow>
                                   (case py_json_loads e tree_search_result of
                                      Inl ex \<Rightarrow> Inl ex
                                    | Inr again \<Rightarrow>
                                        (case getitem again ''node_list'' of
                                           Inl ex \<Rightarrow> Inl ex
                                         | Inr node_list \<Rightarrow>
                                             (case py_iter node_list of
                                                Inl ex \<Rightarrow> Inl ex
                                              | Inr node_ids' \<Rightarrow>
                                                  relevant_content node_map node_ids')))))))))"

text \<open>
  Lines 201 to 214, after the second LLM call: the answer is printed, an error dict is
  raised as a 500, and the response model accepts a string only.
\<close>

definition respond :: "env \<Rightarrow> json \<Rightarrow> string \<Rightarrow> py_exc + ChatResponse" where
  "respond e answer sid =
     (case print_wrapped e answer of
        Some ex \<Rightarrow> Inl ex
      | None \<Rightarrow>
          if is_error answer then
            (case getitem answer ''error'' of
               Inl ex \<Rightarrow> Inl ex
             | Inr d \<Rightarrow> Inl (HTTPException 500 (DetailValue d)))
          else
            (case answer of
               JStr s \<Rightarrow> Inr \<lparr>response = s, response_session_id = sid, timestamp = utcnow e\<rparr>
             | _ \<Rightarrow> Inl ValidationError))"

text \<open>
  Lines 150 to 172, the node-selection call: the prompt is built from the copy of the tree
  with the \<^verbatim>\<open>text\<close> fields removed, and sent. The result comes with the log of the
  HTTP posts made for it.
\<close>

definition tree_search_result ::
  "env \<Rightarrow> settings \<Rightarrow> ChatRequest \<Rightarrow> json \<Rightarrow> json \<times> request list" where
  "tree_search_result e cfg chat_request tree_copy =
     (let tree_without_text = remove_fields tree_copy [''text'']
      in telkomllm_call e cfg []
           (search_prompt (message chat_request) (json_dumps e tree_without_text))
           (LLM_MAX_TOKENS cfg) (LLM_TEMPERATURE cfg))"

text \<open>
  The body of the \<^verbatim>\<open>try\<close> (lines 147 to 214). The second component is the log of the
  HTTP posts the request has made.
\<close>

definition chat_try ::
  "env \<Rightarrow> settings \<Rightarrow> ChatRequest \<Rightarrow> json \<Rightarrow> string \<Rightarrow> (py_exc + ChatResponse) \<times> request list" where
  "chat_try e cfg chat_request tree sid =
     (case py_copy tree of
        Inl ex \<Rightarrow> (Inl ex, [])
      | Inr tree_copy \<Rightarrow>
          (let first = tree_search_result e cfg chat_request tree_copy
           in case retrieve e tree (fst first) of
                Inl ex \<Rightarrow> (Inl ex, snd first)
              | Inr relevant \<Rightarrow>
                  (let second = telkomllm_call e cfg (snd first)
                                  (answer_prompt (message chat_request) relevant)
                                  (LLM_MAX_TOKENS cfg) (LLM_TEMPERATURE cfg)
                   in (respond e (fst second) sid, snd second))))"

text \<open>\<^verbatim>\<open>except Exception as e\<close>: whatever the body raised becomes a 500.\<close>

fun as_query_error :: "py_exc + ChatResponse \<Rightarrow> py_exc + ChatResponse" where
  "as_query_error (Inl ex) = Inl (HTTPException 500 (DetailExc ''Error processing query: '' ex))"
| "as_query_error (Inr r) = Inr r"

text \<open>
  Lines 124 to 139, before the \<^verbatim>\<open>try\<close>: the PDF must be known and its document ready;
  then the tree is fetched and printed. An exception raised here leaves the handler as it
  is.
\<close>

definition fetch_tree :: "env \<Rightarrow> server_state \<Rightarrow> ChatRequest \<Rightarrow> py_exc + json" where
  "fetch_tree e st chat_request =
     (case pdf_storage st (pdf_id chat_request) of
        None \<Rightarrow> Inl (HTTPException 404 (Detail ''PDF not found''))
      | Some info \<Rightarrow>
          (case is_retrieval_ready e (doc_id info) of
             Inl ex \<Rightarrow> Inl ex
           | Inr False \<Rightarrow>
               Inl (HTTPException 400
                      (Detail ''Document is still processing, please try again later.''))
           | Inr True \<Rightarrow>
               (case get_tree e (doc_id info) of
                  Inl ex \<Rightarrow> Inl ex
                | Inr reply \<Rightarrow>
                    (case getitem reply ''result'' of
                       Inl ex \<Rightarrow> Inl ex
                     | Inr tree \<Rightarrow>
                         (case print_tree e tree of
                            Some ex \<Rightarrow> Inl ex
                          | None \<Rightarrow> Inr tree)))))"

text \<open>\<^verbatim>\<open>chat_request.session_id or str(uuid.uuid4())\<close>: an empty string is falsy.\<close>

definition chat_session_id :: "env \<Rightarrow> ChatRequest \<Rightarrow> string" where
  "chat_session_id e chat_request =
     (case session_id chat_request of
        None \<Rightarrow> uuid4 e
      | Some s \<Rightarrow> if s = [] then uuid4 e else s)"

text \<open>
  The handler reads \<^verbatim>\<open>pdf_storage\<close> and changes neither dict nor any file, so it
  returns its result and the log of its HTTP posts only.
\<close>

definition chat_with_pdf ::
  "env \<Rightarrow> settings \<Rightarrow> server_state \<Rightarrow> ChatRequest
     \<Rightarrow> (py_exc + ChatResponse) \<times> request list" where
  "chat_with_pdf e cfg st chat_request =
     (case fetch_tree e st chat_request of
        Inl ex \<Rightarrow> (Inl ex, [])
      | Inr tree \<Rightarrow>
          (let r = chat_try e cfg chat_request tree (chat_session_id e chat_request)
           in (as_query_error (fst r), snd r)))"

text \<open>
  The one request the node-selection call posts (once, or twice when the wrapper retries).
\<close>

definition selection_request :: "env \<Rightarrow> settings \<Rightarrow> ChatRequest \<Rightarrow> json \<Rightarrow> request" where
  "selection_request e cfg chat_request tree =
     mk_request (URL_CUSTOM_LLM cfg) (TOKEN_CUSTOM_LLM cfg)
       (mk_payload
          (search_prompt (message chat_request) (json_dumps e (remove_fields tree [''text''])))
          (LLM_MAX_TOKENS cfg) (LLM_TEMPERATURE cfg))"

section \<open>The upload and delete handlers (\<^verbatim>\<open>upload_pdf\<close>, \<^verbatim>\<open>delete_pdf\<close>)\<close>

record UploadFile =
  file_filename :: string
  file_content :: string

record UploadResponse =
  upload_pdf_id :: string
  upload_filename :: string
  status :: string

text \<open>
  The body of the \<^verbatim>\<open>try\<close> of \<^verbatim>\<open>upload_pdf\<close> (lines 84 to 108), with the state at the
  point where it returns or raises: the document is submitted, the \<^verbatim>\<open>doc_id\<close> is read
  from the reply, and only then are the two dicts written.
\<close>

definition upload_try ::
  "env \<Rightarrow> server_state \<Rightarrow> UploadFile \<Rightarrow> string \<Rightarrow> string
     \<Rightarrow> (py_exc + UploadResponse) \<times> server_state" where
  "upload_try e st file pid path =
     (case submit_document e (disk st) path of
        Inl ex \<Rightarrow> (Inl ex, st)
      | Inr doc_response \<Rightarrow>
          (case getitem doc_response ''doc_id'' of
             Inl ex \<Rightarrow> (Inl ex, st)
           | Inr did \<Rightarrow>
               (Inr \<lparr>upload_pdf_id = pid, upload_filename = file_filename file,
                     status = ''success''\<rparr>,
                st\<lparr>doc_storage := (doc_storage st)(pid \<mapsto> did),
                   pdf_storage := (pdf_storage st)(pid \<mapsto>
                     \<lparr>filename = file_filename file, file_path = path, doc_id = did,
                      upload_time = utcnow e\<rparr>)\<rparr>)))"

text \<open>
  \<^verbatim>\<open>upload_pdf\<close>: the two validations, the id and the path, the write, the \<^verbatim>\<open>try\<close> and
  its \<^verbatim>\<open>except\<close>, which removes the file and raises a 500. The storage directory is
  created at start-up (\<^verbatim>\<open>src/core/main.py\<close>), so the write itself is taken to succeed.
\<close>

definition upload_pdf ::
  "env \<Rightarrow> settings \<Rightarrow> server_state \<Rightarrow> UploadFile
     \<Rightarrow> (py_exc + UploadResponse) \<times> server_state" where
  "upload_pdf e cfg st file =
     (if \<not> endswith (lower (file_filename file)) ''.pdf'' then
        (Inl (HTTPException 400 (Detail ''Only PDF files are allowed'')), st)
      else if int (length (file_content file)) > MAX_FILE_SIZE cfg then
        (Inl (HTTPException 400 (Detail ''File size exceeds maximum allowed size'')), st)
      else
        (let pid = uuid4 e;
             path = os_path_join (PDF_STORAGE_PATH cfg) (pid @ ''.pdf'');
             written = st\<lparr>disk := (disk st)(path \<mapsto> file_content file)\<rparr>
         in case upload_try e written file pid path of
              (Inr r, st') \<Rightarrow> (Inr r, st')
            | (Inl ex, st') \<Rightarrow>
                (Inl (HTTPException 500 (DetailExc ''Error processing PDF: '' ex)),
                 st'\<lparr>disk := (disk st')(path := None)\<rparr>)))"

definition delete_pdf :: "server_state \<Rightarrow> string \<Rightarrow> (py_exc + string) \<times> server_state" where
  "delete_pdf st pid =
     (case pdf_storage st pid of
        None \<Rightarrow> (Inl (HTTPException 404 (Detail ''PDF not found'')), st)
      | Some info \<Rightarrow>
          (Inr (''PDF '' @ pid @ '' deleted successfully''),
           st\<lparr>disk := (disk st)(file_path info := None),
              pdf_storage := (pdf_storage st)(pid := None),
              doc_storage := (if doc_storage st pid \<noteq> None
                              then (doc_storage st)(pid := None) else doc_storage st)\<rparr>))"

section \<open>The server: a sequence of requests from the empty store\<close>

datatype api_call =
    Upload env UploadFile
  | Chat env ChatRequest
  | Delete string

fun handle :: "settings \<Rightarrow> server_state \<Rightarrow> api_call \<Rightarrow> server_state" where
  "handle cfg st (Upload e file) = snd (upload_pdf e cfg st file)"
| "handle cfg st (Chat e chat_request) = st"
| "handle cfg st (Delete pid) = snd (delete_pdf st pid)"

definition initial_state :: "(string \<rightharpoonup> string) \<Rightarrow> server_state" where
  "initial_state files = \<lparr>pdf_storage = Map.empty, doc_storage = Map.empty, disk = files\<rparr>"

definition run :: "settings \<Rightarrow> (string \<rightharpoonup> string) \<Rightarrow> api_call list \<Rightarrow> server_state" where
  "run cfg files calls = foldl (handle cfg) (initial_state files) calls"

text \<open>The two dicts agree: the same keys, and the same \<^verbatim>\<open>doc_id\<close> under each key.\<close>

definition storage_consistent :: "server_state \<Rightarrow> bool" where
  "storage_consistent st =
     (dom (pdf_storage st) = dom (doc_storage st) \<and>
      (\<forall>pid \<in> dom (pdf_storage st).
         doc_storage st pid = map_option doc_id (pdf_storage st pid)))"

section \<open>Resolving node ids\<close>

text \<open>
  An id resolves when the index has a node for it and that node carries the four fields
  the handler reads from it, the \<^verbatim>\<open>text\<close> being a string. \<open>node_text\<close> is that text.
\<close>

definition resolvable :: "(string \<rightharpoonup> json) \<Rightarrow> string \<Rightarrow> bool" where
  "resolvable node_map i =
     (case node_map i of
        None \<Rightarrow> False
      | Some node \<Rightarrow>
          (case (getitem node ''node_id'', getitem node ''page_index'', getitem node ''title'',
                 getitem node ''text'') of
             (Inr _, Inr _, Inr _, Inr (JStr t)) \<Rightarrow> True
           | _ \<Rightarrow> False))"

definition node_text :: "(string \<rightharpoonup> json) \<Rightarrow> string \<Rightarrow> string" where
  "node_text node_map i =
     (case node_map i of
        Some node \<Rightarrow> (case getitem node ''text'' of Inr (JStr t) \<Rightarrow> t | _ \<Rightarrow> [])
      | None \<Rightarrow> [])"

section \<open>Test data\<close>

definition cfg0 :: settings where
  "cfg0 = \<lparr>PDF_STORAGE_PATH = ''./uploaded_pdfs'', MAX_FILE_SIZE = 10485760,
           LLM_TEMPERATURE = 0, LLM_MAX_TOKENS = 3000,
           URL_CUSTOM_LLM = ''https://llm.example/v1'', TOKEN_CUSTOM_LLM = ''secret''\<rparr>"

text \<open>
  A two-node tree, a store holding one uploaded document, and an environment built from
  the readiness flag, the transport and the parser; the printing helper accepts text only.
\<close>

definition tree0 :: json where
  "tree0 =
     JArr [JObj [(''title'', JStr ''Cats''), (''node_id'', JStr ''A''), (''page_index'', JNum 1),
                 (''text'', JStr ''cat''), (''summary'', JStr ''on cats'')],
           JObj [(''title'', JStr ''Dogs''), (''node_id'', JStr ''B''), (''page_index'', JNum 2),
                 (''text'', JStr ''dog''), (''summary'', JStr ''on dogs'')]]"

definition test_env ::
  "bool \<Rightarrow> (nat \<Rightarrow> request \<Rightarrow> http_outcome) \<Rightarrow> (string \<Rightarrow> py_exc + json) \<Rightarrow> env" where
  "test_env ready post loads =
     \<lparr>uuid4 = ''3f2a'',
      utcnow = 1700000000,
      is_retrieval_ready = (\<lambda>d. Inr ready),
      get_tree = (\<lambda>d. Inr (JObj [(''result'', tree0)])),
      submit_document = (\<lambda>files path. Inr (JObj [(''doc_id'', JStr ''doc-1'')])),
      json_dumps = (\<lambda>j. ''<tree>''),
      json_loads = loads,
      print_wrapped = (\<lambda>j. case j of JStr s \<Rightarrow> None | _ \<Rightarrow> Some AttributeError),
      print_tree = (\<lambda>j. None),
      http_post = post\<rparr>"

definition store0 :: server_state where
  "store0 =
     \<lparr>pdf_storage = [''p1'' \<mapsto> \<lparr>filename = ''a.pdf'', file_path = ''./uploaded_pdfs/p1.pdf'',
                                doc_id = JStr ''doc-1'', upload_time = 1699999999\<rparr>],
      doc_storage = [''p1'' \<mapsto> JStr ''doc-1''],
      disk = [''./uploaded_pdfs/p1.pdf'' \<mapsto> ''%PDF'']\<rparr>"

text \<open>A transport whose first post is answered with a 503 and whose later posts succeed.\<close>

definition flaky_post :: "nat \<Rightarrow> request \<Rightarrow> http_outcome" where
  "flaky_post k r =
     (if k = 0 then Responds \<lparr>status_code = 503, content = Inl ''no body''\<rparr>
      else Responds \<lparr>status_code = 200, content = Inr (JStr ''fine'')\<rparr>)"

text \<open>
  A transport that answers the first post with one text and every later post with another,
  a parser that knows four selections, and a chat request for the stored document.
\<close>

definition scripted_post :: "string \<Rightarrow> string \<Rightarrow> nat \<Rightarrow> request \<Rightarrow> http_outcome" where
  "scripted_post selection answer k r =
     Responds \<lparr>status_code = 200, content = Inr (JStr (if k = 0 then selection else answer))\<rparr>"

definition test_loads :: "string \<Rightarrow> py_exc + json" where
  "test_loads s =
     (if s = ''{\"thinking\": \"both\", \"node_list\": [\"A\", \"B\"]}'' then
        Inr (JObj [(''thinking'', JStr ''both''), (''node_list'', JArr [JStr ''A'', JStr ''B''])])
      else if s = ''{\"thinking\": \"guess\", \"node_list\": [\"A\", \"Z\"]}'' then
        Inr (JObj [(''thinking'', JStr ''guess''), (''node_list'', JArr [JStr ''A'', JStr ''Z''])])
      else if s = ''{\"node_list\": [\"A\", \"B\"]}'' then
        Inr (JObj [(''node_list'', JArr [JStr ''A'', JStr ''B''])])
      else if s = ''{\"thinking\": 5, \"node_list\": [\"Z\"]}'' then
        Inr (JObj [(''thinking'', JNum 5), (''node_list'', JArr [JStr ''Z''])])
      else Inl JSONDecodeError)"

definition ask :: ChatRequest where
  "ask = \<lparr>message = ''Which pets?'', pdf_id = ''p1'', session_id = Some ''s1''\<rparr>"

text \<open>
  An upload, and an environment whose document service refuses every submission.
\<close>

definition sample_pdf :: UploadFile where
  "sample_pdf = \<lparr>file_filename = ''Report.PDF'', file_content = ''%PDF-1.7''\<rparr>"

definition failing_env :: env where
  "failing_env =
     (test_env True flaky_post test_loads)
       \<lparr>submit_document := (\<lambda>files path. Inl (LibraryError ''service unavailable''))\<rparr>"

section \<open>The LLM call wrapper returns error indicators and retries once\<close>

lemma make_async_api_call_posts:
  "snd (make_async_api_call e posts u tok p) = posts @ [mk_request u tok p]"
  by (simp add: make_async_api_call_def Let_def)

lemma is_error_error_dict: "is_error (error_dict msg)"
  by (simp add: error_dict_def)

text \<open>
  Claim C8. \<open>make_async_api_call\<close> returns a value, never an exception. It posts one
  request, to the URL it is given and with the token it is given in the \<^verbatim>\<open>x-api-key\<close>
  header; on a status other than 200 and on a transport failure the value is the dict
  \<^verbatim>\<open>{"error": ...}\<close>, which is what \<open>telkomllm_call\<close> tests for. \<open>telkomllm_call\<close> posts
  to the configured URL with the configured token. When the first attempt returns an error
  indicator, it returns what a second attempt with the same URL, token and payload
  returns, and has posted that same request exactly twice; when the first attempt returns
  anything else, it returns that after exactly one post.
\<close>

theorem llm_wrapper_error_indicator_and_single_retry:
  fixes e :: env and cfg :: settings and posts :: "request list"
    and prompt :: string and max_tok :: int and temp :: real
  defines "pl \<equiv> \<lparr>model = ''telkom-ai-instruct'', messages = [(''system'', prompt)],
                   max_tokens = max_tok, temperature = temp, stream = False\<rparr>"
  defines "r \<equiv> \<lparr>url = URL_CUSTOM_LLM cfg,
                  headers = [(''Content-Type'', ''application/json''),
                             (''Accept'', ''application/json''),
                             (''x-api-key'', TOKEN_CUSTOM_LLM cfg)],
                  json_payload = pl\<rparr>"
  defines "first \<equiv> make_async_api_call e posts (URL_CUSTOM_LLM cfg) (TOKEN_CUSTOM_LLM cfg) pl"
  shows "(\<forall>u tok p. snd (make_async_api_call e posts u tok p)
            = posts @ [\<lparr>url = u,
                         headers = [(''Content-Type'', ''application/json''),
                                    (''Accept'', ''application/json''), (''x-api-key'', tok)],
                         json_payload = p\<rparr>])
       \<and> (\<forall>u tok p resp.
             http_post e (length posts)
               \<lparr>url = u,
                headers = [(''Content-Type'', ''application/json''),
                           (''Accept'', ''application/json''), (''x-api-key'', tok)],
                json_payload = p\<rparr> = Responds resp
             \<and> status_code resp \<noteq> 200
            \<longrightarrow> fst (make_async_api_call e posts u tok p)
                  = JObj [(''error'',
                           JStr (''API call failed with status '' @ str_nat (status_code resp)))])
       \<and> (\<forall>u tok p msg.
             http_post e (length posts)
               \<lparr>url = u,
                headers = [(''Content-Type'', ''application/json''),
                           (''Accept'', ''application/json''), (''x-api-key'', tok)],
                json_payload = p\<rparr> = Raises msg
            \<longrightarrow> fst (make_async_api_call e posts u tok p) = JObj [(''error'', JStr msg)])
       \<and> (\<forall>msg. is_error (JObj [(''error'', JStr msg)]))
       \<and> (is_error (fst first) \<longrightarrow>
            telkomllm_call e cfg posts prompt max_tok temp
              = make_async_api_call e (posts @ [r]) (URL_CUSTOM_LLM cfg) (TOKEN_CUSTOM_LLM cfg) pl
            \<and> snd (telkomllm_call e cfg posts prompt max_tok temp) = posts @ [r, r])
       \<and> (\<not> is_error (fst first) \<longrightarrow>
            telkomllm_call e cfg posts prompt max_tok temp = first
            \<and> snd (telkomllm_call e cfg posts prompt max_tok temp) = posts @ [r])"
proof -
  have pl: "mk_payload prompt max_tok temp = pl"
    by (simp add: mk_payload_def pl_def)
  have r: "mk_request (URL_CUSTOM_LLM cfg) (TOKEN_CUSTOM_LLM cfg) pl = r"
    by (simp add: mk_request_def r_def)
  have posted: "snd (make_async_api_call e ps u tok p)
            = ps @ [\<lparr>url = u,
                      headers = [(''Content-Type'', ''application/json''),
                                 (''Accept'', ''application/json''), (''x-api-key'', tok)],
                      json_payload = p\<rparr>]" for ps u tok p
    by (simp add: make_async_api_call_posts mk_request_def)
  have status: "fst (make_async_api_call e posts u tok p)
                  = JObj [(''error'',
                           JStr (''API call failed with status '' @ str_nat (status_code resp)))]"
    if "http_post e (length posts)
               \<lparr>url = u,
                headers = [(''Content-Type'', ''application/json''),
                           (''Accept'', ''application/json''), (''x-api-key'', tok)],
                json_payload = p\<rparr> = Responds resp" and "status_code resp \<noteq> 200"
    for u tok p resp
    using that by (simp add: make_async_api_call_def Let_def mk_request_def error_dict_def)
  have raised: "fst (make_async_api_call e posts u tok p) = JObj [(''error'', JStr msg)]"
    if "http_post e (length posts)
               \<lparr>url = u,
                headers = [(''Content-Type'', ''application/json''),
                           (''Accept'', ''application/json''), (''x-api-key'', tok)],
                json_payload = p\<rparr> = Raises msg"
    for u tok p msg
    using that by (simp add: make_async_api_call_def Let_def mk_request_def error_dict_def)
  have retry: "is_error (fst first) \<longrightarrow>
            telkomllm_call e cfg posts prompt max_tok temp
              = make_async_api_call e (posts @ [r]) (URL_CUSTOM_LLM cfg) (TOKEN_CUSTOM_LLM cfg) pl
            \<and> snd (telkomllm_call e cfg posts prompt max_tok temp) = posts @ [r, r]"
    unfolding first_def
    by (simp add: telkomllm_call_def Let_def pl make_async_api_call_posts r)
  have once: "\<not> is_error (fst first) \<longrightarrow>
            telkomllm_call e cfg posts prompt max_tok temp = first
            \<and> snd (telkomllm_call e cfg posts prompt max_tok temp) = posts @ [r]"
    unfolding first_def
    by (simp add: telkomllm_call_def Let_def pl make_async_api_call_posts r)
  have "\<forall>msg. is_error (JObj [(''error'', JStr msg)])" by simp
  with posted status raised retry once show ?thesis by blast
qed

theorem llm_wrapper_witness:
  "fst (make_async_api_call (test_env True flaky_post (\<lambda>s. Inl JSONDecodeError)) []
          ''https://llm.example/v1'' ''secret''
          \<lparr>model = ''telkom-ai-instruct'', messages = [(''system'', ''hi'')],
           max_tokens = 3000, temperature = 0, stream = False\<rparr>)
     = JObj [(''error'', JStr ''API call failed with status 503'')]
   \<and> is_error (JObj [(''error'', JStr ''API call failed with status 503'')])
   \<and> telkomllm_call (test_env True flaky_post (\<lambda>s. Inl JSONDecodeError)) cfg0 [] ''hi'' 3000 0
     = (JStr ''fine'',
        [\<lparr>url = ''https://llm.example/v1'',
          headers = [(''Content-Type'', ''application/json''), (''Accept'', ''application/json''),
                     (''x-api-key'', ''secret'')],
          json_payload = \<lparr>model = ''telkom-ai-instruct'', messages = [(''system'', ''hi'')],
                          max_tokens = 3000, temperature = 0, stream = False\<rparr>\<rparr>,
         \<lparr>url = ''https://llm.example/v1'',
          headers = [(''Content-Type'', ''application/json''), (''Accept'', ''application/json''),
                     (''x-api-key'', ''secret'')],
          json_payload = \<lparr>model = ''telkom-ai-instruct'', messages = [(''system'', ''hi'')],
                          max_tokens = 3000, temperature = 0, stream = False\<rparr>\<rparr>])"
  using llm_wrapper_error_indicator_and_single_retry
          [of "test_env True flaky_post (\<lambda>s. Inl JSONDecodeError)" "[]" cfg0 "''hi''" 3000 0]
  by (simp add: test_env_def flaky_post_def cfg0_def make_async_api_call_def Let_def
        str_nat.simps digit_def error_dict_def mk_request_def)

section \<open>The chat handler: readiness, malformed selections, unknown node ids\<close>

lemma telkomllm_call_posts:
  "snd (telkomllm_call e cfg posts prompt mt temp) =
     posts @ (let r = mk_request (URL_CUSTOM_LLM cfg) (TOKEN_CUSTOM_LLM cfg)
                        (mk_payload prompt mt temp)
              in if is_error (fst (make_async_api_call e posts (URL_CUSTOM_LLM cfg)
                                     (TOKEN_CUSTOM_LLM cfg) (mk_payload prompt mt temp)))
                 then [r, r] else [r])"
  by (simp add: telkomllm_call_def Let_def make_async_api_call_posts)

lemma tree_search_result_posts:
  "snd (tree_search_result e cfg cr tree) = [selection_request e cfg cr tree]
   \<or> snd (tree_search_result e cfg cr tree)
       = [selection_request e cfg cr tree, selection_request e cfg cr tree]"
  by (simp add: tree_search_result_def selection_request_def telkomllm_call_posts Let_def)

lemma tree_search_result_no_retry:
  "is_error (fst (make_async_api_call e [] (URL_CUSTOM_LLM cfg) (TOKEN_CUSTOM_LLM cfg)
                    (json_payload (selection_request e cfg cr tree))))
   \<or> snd (tree_search_result e cfg cr tree) = [selection_request e cfg cr tree]"
  by (simp add: tree_search_result_def selection_request_def telkomllm_call_posts Let_def
        mk_request_def)

lemma prompts_differ: "search_prompt q d \<noteq> answer_prompt q' c"
  by (simp add: search_prompt_def answer_prompt_def)

lemma selection_request_is_no_answer_request:
  "messages (json_payload (selection_request e cfg cr tree)) \<noteq> [(''system'', answer_prompt q c)]"
  by (simp add: selection_request_def mk_request_def mk_payload_def prompts_differ)

lemma chat_try_retrieve_fails:
  assumes "py_copy tree = Inr tree"
    and "retrieve e tree (fst (tree_search_result e cfg cr tree)) = Inl ex"
  shows "chat_try e cfg cr tree sid = (Inl ex, snd (tree_search_result e cfg cr tree))"
  using assms by (simp add: chat_try_def Let_def)

lemma fetch0: "fetch_tree (test_env True post loads) store0 ask = Inr tree0"
  by (simp add: fetch_tree_def test_env_def store0_def ask_def tree0_def)

lemma copy0: "py_copy tree0 = Inr tree0"
  by (simp add: tree0_def)

text \<open>
  Claim C5. A chat request for a known \<^verbatim>\<open>pdf_id\<close> whose document the service reports as
  not ready is answered with the HTTP 400 "still processing" (not the 404 of an unknown
  id, not a 500), and the log of HTTP posts is empty: no LLM call was made.
\<close>

theorem chat_not_ready_no_llm_calls:
  assumes "pdf_storage st (pdf_id chat_request) = Some info"
    and "is_retrieval_ready e (doc_id info) = Inr False"
  shows "chat_with_pdf e cfg st chat_request =
           (Inl (HTTPException 400
                   (Detail ''Document is still processing, please try again later.'')), [])"
  using assms by (simp add: chat_with_pdf_def fetch_tree_def)

theorem chat_not_ready_witness:
  "chat_with_pdf (test_env False flaky_post (\<lambda>s. Inl JSONDecodeError)) cfg0 store0 ask
    = (Inl (HTTPException 400
              (Detail ''Document is still processing, please try again later.'')), [])"
  by (rule chat_not_ready_no_llm_calls
        [where info = "\<lparr>filename = ''a.pdf'', file_path = ''./uploaded_pdfs/p1.pdf'',
                        doc_id = JStr ''doc-1'', upload_time = 1699999999\<rparr>"])
     (simp_all add: store0_def test_env_def ask_def)

text \<open>
  Claim C3. When the request reaches the node-selection call and what that call returns
  cannot be parsed (\<^verbatim>\<open>json.loads\<close> raises on the text, or the result is no text at all),
  the request fails with a 500 that wraps the parse error. Every HTTP post of the request
  is the node-selection request, which is never an answer-synthesis request; there are
  one or two of them, and two only when the first attempt returned an error indicator: a
  reply that is merely malformed is not asked for again.
\<close>

theorem chat_malformed_selection_fails_without_synthesis:
  assumes "fetch_tree e st chat_request = Inr tree"
    and "py_copy tree = Inr tree"
    and "py_json_loads e (fst (tree_search_result e cfg chat_request tree)) = Inl ex"
  shows "chat_with_pdf e cfg st chat_request =
           (Inl (HTTPException 500 (DetailExc ''Error processing query: '' ex)),
            snd (tree_search_result e cfg chat_request tree))
         \<and> (snd (tree_search_result e cfg chat_request tree)
              = [selection_request e cfg chat_request tree]
            \<or> snd (tree_search_result e cfg chat_request tree)
                = [selection_request e cfg chat_request tree,
                   selection_request e cfg chat_request tree])
         \<and> (is_error (fst (make_async_api_call e [] (URL_CUSTOM_LLM cfg) (TOKEN_CUSTOM_LLM cfg)
                               (json_payload (selection_request e cfg chat_request tree))))
            \<or> snd (tree_search_result e cfg chat_request tree)
                = [selection_request e cfg chat_request tree])
         \<and> (\<forall>q c. messages (json_payload (selection_request e cfg chat_request tree))
                    \<noteq> [(''system'', answer_prompt q c)])"
proof -
  have "retrieve e tree (fst (tree_search_result e cfg chat_request tree)) = Inl ex"
    using assms(3) by (simp add: retrieve_def)
  with assms(2)
  have "chat_try e cfg chat_request tree (chat_session_id e chat_request)
          = (Inl ex, snd (tree_search_result e cfg chat_request tree))"
    by (rule chat_try_retrieve_fails)
  then have "chat_with_pdf e cfg st chat_request =
           (Inl (HTTPException 500 (DetailExc ''Error processing query: '' ex)),
            snd (tree_search_result e cfg chat_request tree))"
    using assms(1) by (simp add: chat_with_pdf_def)
  then show ?thesis
    using tree_search_result_posts [of e cfg chat_request tree]
      tree_search_result_no_retry [of e cfg chat_request tree]
      selection_request_is_no_answer_request [of e cfg chat_request tree]
    by blast
qed

theorem chat_malformed_witness:
  "chat_with_pdf (test_env True (scripted_post ''Sorry, no idea.'' ''unused'') test_loads)
       cfg0 store0 ask
     = (Inl (HTTPException 500 (DetailExc ''Error processing query: '' JSONDecodeError)),
        [selection_request (test_env True (scripted_post ''Sorry, no idea.'' ''unused'') test_loads)
           cfg0 ask tree0])"
  using chat_malformed_selection_fails_without_synthesis
          [of "test_env True (scripted_post ''Sorry, no idea.'' ''unused'') test_loads"
              store0 ask tree0 cfg0 JSONDecodeError, OF fetch0 copy0]
  by (simp add: tree_search_result_def telkomllm_call_def make_async_api_call_def Let_def
        test_env_def scripted_post_def test_loads_def selection_request_def)







lemma selection0:
  "fst (tree_search_result (test_env True (scripted_post sel ans) test_loads) cfg0 ask tree0)
     = JStr sel"
  by (simp add: tree_search_result_def telkomllm_call_def make_async_api_call_def Let_def
        test_env_def scripted_post_def)




section \<open>The upload handler: validation and cleanup\<close>

text \<open>
  Claim C6. An upload whose file name does not end in \<^verbatim>\<open>.pdf\<close> (compared in lower case),
  or whose content is longer than \<^verbatim>\<open>MAX_FILE_SIZE\<close>, is answered with an HTTP 400, and the
  state the handler leaves is the state it found: no file was written and neither dict
  was touched.
\<close>

theorem upload_rejected_without_side_effects:
  assumes "\<not> endswith (lower (file_filename file)) ''.pdf''
           \<or> int (length (file_content file)) > MAX_FILE_SIZE cfg"
  shows "upload_pdf e cfg st file =
           (Inl (HTTPException 400
                   (Detail (if \<not> endswith (lower (file_filename file)) ''.pdf''
                            then ''Only PDF files are allowed''
                            else ''File size exceeds maximum allowed size''))),
            st)"
  using assms by (auto simp: upload_pdf_def)

theorem upload_rejected_witness:
  "upload_pdf (test_env True flaky_post test_loads) cfg0 store0
       \<lparr>file_filename = ''notes.pdf.txt'', file_content = ''hello''\<rparr>
     = (Inl (HTTPException 400 (Detail ''Only PDF files are allowed'')), store0)
   \<and> upload_pdf (test_env True flaky_post test_loads) (cfg0\<lparr>MAX_FILE_SIZE := 4\<rparr>) store0 sample_pdf
     = (Inl (HTTPException 400 (Detail ''File size exceeds maximum allowed size'')), store0)"
  using upload_rejected_without_side_effects
          [of "\<lparr>file_filename = ''notes.pdf.txt'', file_content = ''hello''\<rparr>" cfg0
              "test_env True flaky_post test_loads" store0]
        upload_rejected_without_side_effects
          [of sample_pdf "cfg0\<lparr>MAX_FILE_SIZE := 4\<rparr>" "test_env True flaky_post test_loads" store0]
  by (simp add: endswith_def lower_def lower_char_def sample_pdf_def cfg0_def)

text \<open>
  Claim C7. When an upload has passed validation and its file has been written, and then
  the submission to the document service raises or its reply has no \<^verbatim>\<open>doc_id\<close>, the
  handler answers with an HTTP 500 that wraps the exception, and leaves the state it found
  except that no file stands at the path it wrote: the file is removed and neither dict
  has gained a record.
\<close>

theorem upload_processing_failure_cleans_up:
  fixes e :: env and cfg :: settings and st :: server_state
  defines "path \<equiv> os_path_join (PDF_STORAGE_PATH cfg) (uuid4 e @ ''.pdf'')"
  assumes "endswith (lower (file_filename file)) ''.pdf''"
    and "int (length (file_content file)) \<le> MAX_FILE_SIZE cfg"
    and "submit_document e ((disk st)(path \<mapsto> file_content file)) path = Inl ex
         \<or> (\<exists>reply. submit_document e ((disk st)(path \<mapsto> file_content file)) path = Inr reply
                    \<and> getitem reply ''doc_id'' = Inl ex)"
  shows "upload_pdf e cfg st file =
           (Inl (HTTPException 500 (DetailExc ''Error processing PDF: '' ex)),
            st\<lparr>disk := (disk st)(path := None)\<rparr>)
         \<and> disk (snd (upload_pdf e cfg st file)) path = None
         \<and> pdf_storage (snd (upload_pdf e cfg st file)) = pdf_storage st
         \<and> doc_storage (snd (upload_pdf e cfg st file)) = doc_storage st"
  using assms by (auto simp: upload_pdf_def upload_try_def Let_def)

theorem upload_processing_failure_witness:
  "upload_pdf failing_env cfg0 store0 sample_pdf =
     (Inl (HTTPException 500
             (DetailExc ''Error processing PDF: '' (LibraryError ''service unavailable''))),
      store0)
   \<and> disk store0 ''./uploaded_pdfs/3f2a.pdf'' = None"
proof -
  have p: "os_path_join (PDF_STORAGE_PATH cfg0) (uuid4 failing_env @ ''.pdf'')
             = ''./uploaded_pdfs/3f2a.pdf''"
    by (simp add: os_path_join_def cfg0_def failing_env_def test_env_def)
  have "endswith (lower (file_filename sample_pdf)) ''.pdf''"
    by (simp add: endswith_def lower_def lower_char_def sample_pdf_def)
  moreover have "int (length (file_content sample_pdf)) \<le> MAX_FILE_SIZE cfg0"
    by (simp add: sample_pdf_def cfg0_def)
  ultimately show ?thesis
    using upload_processing_failure_cleans_up
            [of sample_pdf cfg0 failing_env store0 "LibraryError ''service unavailable''"]
    by (simp add: p) (simp add: failing_env_def test_env_def store0_def)
qed

section \<open>The storage path does not depend on the file name\<close>

lemma upload_pdf_accepted:
  assumes "endswith (lower (file_filename file)) ''.pdf''"
    and "int (length (file_content file)) \<le> MAX_FILE_SIZE cfg"
  shows "upload_pdf e cfg st file =
           (let pid = uuid4 e;
                path = os_path_join (PDF_STORAGE_PATH cfg) (pid @ ''.pdf'');
                written = st\<lparr>disk := (disk st)(path \<mapsto> file_content file)\<rparr>
            in case upload_try e written file pid path of
                 (Inr r, st') \<Rightarrow> (Inr r, st')
               | (Inl ex, st') \<Rightarrow>
                   (Inl (HTTPException 500 (DetailExc ''Error processing PDF: '' ex)),
                    st'\<lparr>disk := (disk st')(path := None)\<rparr>))"
  using assms by (simp add: upload_pdf_def)

text \<open>
  Claim C9. For an upload that passes validation, the file is written at
  \<^verbatim>\<open>os.path.join(PDF_STORAGE_PATH, pdf_id + ".pdf")\<close> with the generated id, which is
  \<^verbatim>\<open>PDF_STORAGE_PATH/{pdf_id}.pdf\<close> for a storage path that is not empty and does not end
  in a separator. Two such uploads that differ in the file name only leave the same files
  on disk, the same \<^verbatim>\<open>doc_storage\<close>, and the same \<^verbatim>\<open>file_path\<close> under every key of
  \<^verbatim>\<open>pdf_storage\<close>; the file name appears in the stored record and in the response only.
\<close>

theorem upload_path_independent_of_filename:
  fixes e :: env and cfg :: settings and st :: server_state
  defines "path \<equiv> os_path_join (PDF_STORAGE_PATH cfg) (uuid4 e @ ''.pdf'')"
  assumes "endswith (lower (file_filename f)) ''.pdf''"
    and "endswith (lower (file_filename f')) ''.pdf''"
    and "file_content f' = file_content f"
    and "int (length (file_content f)) \<le> MAX_FILE_SIZE cfg"
  shows "disk (snd (upload_pdf e cfg st f')) = disk (snd (upload_pdf e cfg st f))
         \<and> doc_storage (snd (upload_pdf e cfg st f')) = doc_storage (snd (upload_pdf e cfg st f))
         \<and> (\<forall>pid. map_option file_path (pdf_storage (snd (upload_pdf e cfg st f')) pid)
                  = map_option file_path (pdf_storage (snd (upload_pdf e cfg st f)) pid))
         \<and> (\<forall>r. fst (upload_pdf e cfg st f) = Inr r \<longrightarrow>
               upload_pdf_id r = uuid4 e
               \<and> upload_filename r = file_filename f
               \<and> disk (snd (upload_pdf e cfg st f)) = (disk st)(path \<mapsto> file_content f)
               \<and> map_option file_path (pdf_storage (snd (upload_pdf e cfg st f)) (uuid4 e))
                   = Some path
               \<and> map_option filename (pdf_storage (snd (upload_pdf e cfg st f)) (uuid4 e))
                   = Some (file_filename f))
         \<and> (PDF_STORAGE_PATH cfg \<noteq> [] \<and> last (PDF_STORAGE_PATH cfg) \<noteq> CHR ''/''
              \<and> (uuid4 e = [] \<or> hd (uuid4 e) \<noteq> CHR ''/'')
            \<longrightarrow> path = PDF_STORAGE_PATH cfg @ ''/'' @ uuid4 e @ ''.pdf'')"
proof -
  have a: "int (length (file_content f')) \<le> MAX_FILE_SIZE cfg"
    using assms(4,5) by simp
  note u = upload_pdf_accepted [OF assms(2) assms(5), of e st]
  note u' = upload_pdf_accepted [OF assms(3) a, of e st]
  have shape: "PDF_STORAGE_PATH cfg \<noteq> [] \<and> last (PDF_STORAGE_PATH cfg) \<noteq> CHR ''/''
              \<and> (uuid4 e = [] \<or> hd (uuid4 e) \<noteq> CHR ''/'')
            \<longrightarrow> path = PDF_STORAGE_PATH cfg @ ''/'' @ uuid4 e @ ''.pdf''"
    by (auto simp: path_def os_path_join_def hd_append)
  have rest: "disk (snd (upload_pdf e cfg st f')) = disk (snd (upload_pdf e cfg st f))
         \<and> doc_storage (snd (upload_pdf e cfg st f')) = doc_storage (snd (upload_pdf e cfg st f))
         \<and> (\<forall>pid. map_option file_path (pdf_storage (snd (upload_pdf e cfg st f')) pid)
                  = map_option file_path (pdf_storage (snd (upload_pdf e cfg st f)) pid))
         \<and> (\<forall>r. fst (upload_pdf e cfg st f) = Inr r \<longrightarrow>
               upload_pdf_id r = uuid4 e
               \<and> upload_filename r = file_filename f
               \<and> disk (snd (upload_pdf e cfg st f)) = (disk st)(path \<mapsto> file_content f)
               \<and> map_option file_path (pdf_storage (snd (upload_pdf e cfg st f)) (uuid4 e))
                   = Some path
               \<and> map_option filename (pdf_storage (snd (upload_pdf e cfg st f)) (uuid4 e))
                   = Some (file_filename f))"
    unfolding u u' path_def using assms(4)
    by (auto simp: upload_try_def Let_def split: sum.splits)
  from rest shape show ?thesis by blast
qed

theorem upload_path_witness:
  "disk (snd (upload_pdf (test_env True flaky_post test_loads) cfg0 store0
                 \<lparr>file_filename = ''../../etc/passwd.pdf'', file_content = ''%PDF-1.7''\<rparr>))
     = (disk store0)(''./uploaded_pdfs/3f2a.pdf'' \<mapsto> ''%PDF-1.7'')
   \<and> disk (snd (upload_pdf (test_env True flaky_post test_loads) cfg0 store0
                 \<lparr>file_filename = ''../../etc/passwd.pdf'', file_content = ''%PDF-1.7''\<rparr>))
     = disk (snd (upload_pdf (test_env True flaky_post test_loads) cfg0 store0 sample_pdf))
   \<and> map_option filename
        (pdf_storage (snd (upload_pdf (test_env True flaky_post test_loads) cfg0 store0 sample_pdf))
           ''3f2a'')
     = Some ''Report.PDF''"
proof -
  let ?e = "test_env True flaky_post test_loads"
  let ?f' = "\<lparr>file_filename = ''../../etc/passwd.pdf'', file_content = ''%PDF-1.7''\<rparr>"
  have 1: "endswith (lower (file_filename sample_pdf)) ''.pdf''"
    by (simp add: endswith_def lower_def lower_char_def sample_pdf_def)
  have 2: "endswith (lower (file_filename ?f')) ''.pdf''"
    by (simp add: endswith_def lower_def lower_char_def)
  have 3: "file_content ?f' = file_content sample_pdf"
    by (simp add: sample_pdf_def)
  have 4: "int (length (file_content sample_pdf)) \<le> MAX_FILE_SIZE cfg0"
    by (simp add: sample_pdf_def cfg0_def)
  have ok: "fst (upload_pdf ?e cfg0 store0 sample_pdf)
              = Inr \<lparr>upload_pdf_id = ''3f2a'', upload_filename = ''Report.PDF'', status = ''success''\<rparr>"
    by (simp add: upload_pdf_accepted [OF 1 4] upload_try_def Let_def)
       (simp add: test_env_def sample_pdf_def)
  have p: "os_path_join (PDF_STORAGE_PATH cfg0) ''3f2a.pdf'' = ''./uploaded_pdfs/3f2a.pdf''"
    by (simp add: os_path_join_def cfg0_def)
  have u: "uuid4 ?e = ''3f2a''" by (simp add: test_env_def)
  from upload_path_independent_of_filename [OF 1 2 3 4, of ?e store0] ok
  show ?thesis
    by (simp add: u p) (simp add: sample_pdf_def)
qed

section \<open>The two dicts stay consistent\<close>

lemma upload_pdf_failed_maps:
  "fst (upload_pdf e cfg st file) = Inl ex \<Longrightarrow>
     pdf_storage (snd (upload_pdf e cfg st file)) = pdf_storage st
     \<and> doc_storage (snd (upload_pdf e cfg st file)) = doc_storage st"
  by (auto simp: upload_pdf_def upload_try_def Let_def split: if_splits sum.splits)

lemma upload_pdf_consistent:
  "storage_consistent st \<Longrightarrow> storage_consistent (snd (upload_pdf e cfg st file))"
  by (auto simp: storage_consistent_def upload_pdf_def upload_try_def Let_def
           split: if_splits sum.splits)

lemma delete_pdf_consistent:
  "storage_consistent st \<Longrightarrow> storage_consistent (snd (delete_pdf st pid))"
  by (auto simp: storage_consistent_def delete_pdf_def split: option.splits if_splits)

lemma handle_consistent:
  "storage_consistent st \<Longrightarrow> storage_consistent (handle cfg st c)"
  by (cases c) (simp_all add: upload_pdf_consistent delete_pdf_consistent)

lemma foldl_handle_consistent:
  "storage_consistent st \<Longrightarrow> storage_consistent (foldl (handle cfg) st calls)"
  by (induction calls arbitrary: st) (simp_all add: handle_consistent)

text \<open>
  Claim C10. In every state the server reaches from the empty store by uploads, chats and
  deletes, \<^verbatim>\<open>pdf_storage\<close> and \<^verbatim>\<open>doc_storage\<close> have the same keys and
  \<^verbatim>\<open>doc_storage[pdf_id]\<close> is \<^verbatim>\<open>pdf_storage[pdf_id]["doc_id"]\<close> for every key. An upload
  and a delete each keep this, whether they succeed or fail; a failed upload leaves both
  dicts as they were and a failed delete leaves the whole state as it was.
\<close>

theorem storage_maps_stay_consistent:
  "storage_consistent (run cfg files calls)
   \<and> (storage_consistent st \<longrightarrow>
         storage_consistent (snd (upload_pdf e cfg st file))
         \<and> storage_consistent (snd (delete_pdf st pid)))
   \<and> (\<forall>ex. fst (upload_pdf e cfg st file) = Inl ex \<longrightarrow>
         pdf_storage (snd (upload_pdf e cfg st file)) = pdf_storage st
         \<and> doc_storage (snd (upload_pdf e cfg st file)) = doc_storage st)
   \<and> (\<forall>ex. fst (delete_pdf st pid) = Inl ex \<longrightarrow> snd (delete_pdf st pid) = st)"
proof -
  have "storage_consistent (initial_state files)"
    by (simp add: storage_consistent_def initial_state_def)
  then have "storage_consistent (run cfg files calls)"
    unfolding run_def by (rule foldl_handle_consistent)
  moreover have "\<forall>ex. fst (delete_pdf st pid) = Inl ex \<longrightarrow> snd (delete_pdf st pid) = st"
    by (simp add: delete_pdf_def split: option.splits)
  ultimately show ?thesis
    using upload_pdf_consistent [of st e cfg "file"] delete_pdf_consistent [of st pid]
      upload_pdf_failed_maps [of e cfg st "file"]
    by blast
qed

theorem storage_maps_witness:
  "storage_consistent
     (run cfg0 Map.empty
        [Upload (test_env True flaky_post test_loads) sample_pdf, Upload failing_env sample_pdf,
         Delete ''unknown''])
   \<and> dom (pdf_storage (run cfg0 Map.empty [Upload (test_env True flaky_post test_loads) sample_pdf]))
     = {''3f2a''}
   \<and> doc_storage (run cfg0 Map.empty [Upload (test_env True flaky_post test_loads) sample_pdf])
       ''3f2a''
     = Some (JStr ''doc-1'')
   \<and> storage_consistent store0
   \<and> storage_consistent (snd (delete_pdf store0 ''p1''))
   \<and> pdf_storage (snd (delete_pdf store0 ''p1'')) = Map.empty
   \<and> doc_storage (snd (delete_pdf store0 ''p1'')) = Map.empty"
proof -
  have s0: "storage_consistent store0"
    by (simp add: storage_consistent_def store0_def)
  have v: "endswith (lower (file_filename sample_pdf)) ''.pdf''"
    by (simp add: endswith_def lower_def lower_char_def sample_pdf_def)
  have up: "run cfg0 Map.empty [Upload (test_env True flaky_post test_loads) sample_pdf]
     = \<lparr>pdf_storage = [''3f2a'' \<mapsto> \<lparr>filename = ''Report.PDF'',
                                       file_path = ''./uploaded_pdfs/3f2a.pdf'',
                                       doc_id = JStr ''doc-1'', upload_time = 1700000000\<rparr>],
        doc_storage = [''3f2a'' \<mapsto> JStr ''doc-1''],
        disk = [''./uploaded_pdfs/3f2a.pdf'' \<mapsto> ''%PDF-1.7'']\<rparr>"
    using v
    by (simp add: run_def initial_state_def upload_pdf_def upload_try_def Let_def)
       (simp add: test_env_def sample_pdf_def cfg0_def os_path_join_def)
  have del: "snd (delete_pdf store0 ''p1'')
     = \<lparr>pdf_storage = Map.empty, doc_storage = Map.empty, disk = Map.empty\<rparr>"
    by (simp add: delete_pdf_def store0_def)
  from storage_maps_stay_consistent
         [of cfg0 Map.empty
             "[Upload (test_env True flaky_post test_loads) sample_pdf,
               Upload failing_env sample_pdf, Delete ''unknown'']"
             store0 failing_env sample_pdf "''p1''"]
       s0
  show ?thesis by (simp add: up del)
qed

section \<open>The assembled context\<close>

lemma resolvableD:
  assumes "resolvable nm i"
  obtains node a b c where "nm i = Some node" "getitem node ''node_id'' = Inr a"
    "getitem node ''page_index'' = Inr b" "getitem node ''title'' = Inr c"
    "getitem node ''text'' = Inr (JStr (node_text nm i))"
  using assms
  by (auto simp: resolvable_def node_text_def split: option.splits sum.splits json.splits)

lemma print_retrieved_nodes_resolvable:
  "\<forall>i \<in> set names. resolvable nm i \<Longrightarrow> print_retrieved_nodes nm (map JStr names) = None"
proof (induction names)
  case Nil
  then show ?case by simp
next
  case (Cons i names)
  then have "resolvable nm i" by simp
  then show ?case using Cons by (elim resolvableD) simp
qed

lemma node_texts_resolvable:
  "\<forall>i \<in> set names. resolvable nm i \<Longrightarrow>
     node_texts nm (map JStr names) = Inr (map (\<lambda>i. JStr (node_text nm i)) names)"
proof (induction names)
  case Nil
  then show ?case by simp
next
  case (Cons i names)
  then have "resolvable nm i" by simp
  then show ?case using Cons by (elim resolvableD) simp
qed

lemma the_strings_JStr: "the_strings (map (\<lambda>i. JStr (f i)) names) = Some (map f names)"
  by (induction names) simp_all

lemma relevant_content_resolvable:
  "\<forall>i \<in> set names. resolvable nm i \<Longrightarrow>
     relevant_content nm (map JStr names)
       = Inr (join ''\<newline>\<newline>'' (map (node_text nm) names))"
  by (simp add: relevant_content_def node_texts_resolvable the_strings_JStr)

lemma retrieve_resolvable:
  assumes "py_json_loads e r = Inr parsed"
    and "getitem parsed ''thinking'' = Inr thinking"
    and "print_wrapped e thinking = None"
    and "getitem parsed ''node_list'' = Inr (JArr (map JStr names))"
    and "\<forall>i \<in> set names. resolvable (create_node_mapping tree) i"
  shows "retrieve e tree r
           = Inr (join ''\<newline>\<newline>'' (map (node_text (create_node_mapping tree)) names))"
  using assms
  by (simp add: retrieve_def print_retrieved_nodes_resolvable relevant_content_resolvable)

lemma index0:
  "create_node_mapping tree0 =
     [''A'' \<mapsto> JObj [(''title'', JStr ''Cats''), (''node_id'', JStr ''A''), (''page_index'', JNum 1),
                      (''text'', JStr ''cat''), (''summary'', JStr ''on cats'')],
      ''B'' \<mapsto> JObj [(''title'', JStr ''Dogs''), (''node_id'', JStr ''B''), (''page_index'', JNum 2),
                      (''text'', JStr ''dog''), (''summary'', JStr ''on dogs'')]]"
  by (simp add: create_node_mapping_def tree0_def)

lemma selection_posts0:
  "snd (tree_search_result (test_env True (scripted_post sel ans) test_loads) cfg0 ask tree0)
     = [selection_request (test_env True (scripted_post sel ans) test_loads) cfg0 ask tree0]"
  by (simp add: tree_search_result_def telkomllm_call_def make_async_api_call_def Let_def
        selection_request_def)
     (simp add: test_env_def scripted_post_def)

text \<open>
  Claim C2, as the code has it. When the selection parses to an object that carries a
  printable \<^verbatim>\<open>thinking\<close> beside its \<^verbatim>\<open>node_list\<close>, and every id of the list resolves,
  the context is the texts of the resolved nodes in the order of the list, joined by a
  blank line; the answer-synthesis call is made with the prompt built from that context,
  and the handler returns what that call yields.
\<close>

theorem context_is_texts_joined_in_order:
  fixes e :: env and cfg :: settings and chat_request :: ChatRequest and tree :: json
    and names :: "string list"
  defines "relevant \<equiv> join ''\<newline>\<newline>'' (map (node_text (create_node_mapping tree)) names)"
  defines "first \<equiv> tree_search_result e cfg chat_request tree"
  defines "second \<equiv> telkomllm_call e cfg (snd first)
                       (answer_prompt (message chat_request) relevant)
                       (LLM_MAX_TOKENS cfg) (LLM_TEMPERATURE cfg)"
  assumes "fetch_tree e st chat_request = Inr tree"
    and "py_copy tree = Inr tree"
    and "py_json_loads e (fst first) = Inr parsed"
    and "getitem parsed ''thinking'' = Inr thinking"
    and "print_wrapped e thinking = None"
    and "getitem parsed ''node_list'' = Inr (JArr (map JStr names))"
    and "\<forall>i \<in> set names. resolvable (create_node_mapping tree) i"
  shows "retrieve e tree (fst first) = Inr relevant
         \<and> chat_with_pdf e cfg st chat_request
             = (as_query_error (respond e (fst second) (chat_session_id e chat_request)),
                snd second)"
proof -
  have r: "retrieve e tree (fst first) = Inr relevant"
    unfolding relevant_def first_def
    using assms(6-10) unfolding first_def by (rule retrieve_resolvable)
  then show ?thesis
    using assms(4,5)
    by (simp add: chat_with_pdf_def chat_try_def Let_def first_def second_def)
qed

theorem context_witness:
  "retrieve
     (test_env True
        (scripted_post ''{\"thinking\": \"both\", \"node_list\": [\"A\", \"B\"]}'' ''Cats and dogs.'')
        test_loads)
     tree0 (JStr ''{\"thinking\": \"both\", \"node_list\": [\"A\", \"B\"]}'')
     = Inr ''cat\<newline>\<newline>dog''
   \<and> chat_with_pdf
       (test_env True
          (scripted_post ''{\"thinking\": \"both\", \"node_list\": [\"A\", \"B\"]}'' ''Cats and dogs.'')
          test_loads)
       cfg0 store0 ask
     = (Inr \<lparr>response = ''Cats and dogs.'', response_session_id = ''s1'',
              timestamp = 1700000000\<rparr>,
        [selection_request
           (test_env True
              (scripted_post ''{\"thinking\": \"both\", \"node_list\": [\"A\", \"B\"]}''
                 ''Cats and dogs.'')
              test_loads)
           cfg0 ask tree0,
         mk_request ''https://llm.example/v1'' ''secret''
           (mk_payload (answer_prompt ''Which pets?'' ''cat\<newline>\<newline>dog'') 3000 0)])"
proof -
  let ?sel = "''{\"thinking\": \"both\", \"node_list\": [\"A\", \"B\"]}''"
  let ?e = "test_env True (scripted_post ?sel ''Cats and dogs.'') test_loads"
  let ?parsed = "JObj [(''thinking'', JStr ''both''),
                       (''node_list'', JArr [JStr ''A'', JStr ''B''])]"
  have p: "py_json_loads ?e (fst (tree_search_result ?e cfg0 ask tree0)) = Inr ?parsed"
    by (simp add: selection0) (simp add: test_env_def test_loads_def)
  have t: "getitem ?parsed ''thinking'' = Inr (JStr ''both'')" by simp
  have w: "print_wrapped ?e (JStr ''both'') = None" by (simp add: test_env_def)
  have g: "getitem ?parsed ''node_list'' = Inr (JArr (map JStr [''A'', ''B'']))" by simp
  have res: "\<forall>i \<in> set [''A'', ''B'']. resolvable (create_node_mapping tree0) i"
    by (simp add: index0 resolvable_def)
  have texts: "node_text (create_node_mapping tree0) ''A'' = ''cat''"
    "node_text (create_node_mapping tree0) ''B'' = ''dog''"
    by (simp_all add: index0 node_text_def)
  from context_is_texts_joined_in_order [OF fetch0 copy0 p t w g res]
  show ?thesis
    by (simp add: texts selection0 selection_posts0)
       (simp add: telkomllm_call_def make_async_api_call_def Let_def respond_def
          chat_session_id_def ask_def cfg0_def test_env_def scripted_post_def)
qed

text \<open>
  Claim C2, as the spec states it, fails on the spec's own example: the selection
  \<^verbatim>\<open>{"node_list": ["A","B"]}\<close> names two ids that are both in the tree, yet line 177 reads
  \<^verbatim>\<open>tree_search_result_json['thinking']\<close> before the context is assembled and raises a
  \<open>KeyError\<close>, so there is no context and no answer-synthesis call.
\<close>

theorem context_without_thinking_counterexample:
  "create_node_mapping tree0 ''A'' \<noteq> None
   \<and> create_node_mapping tree0 ''B'' \<noteq> None
   \<and> py_json_loads
       (test_env True (scripted_post ''{\"node_list\": [\"A\", \"B\"]}'' ''unused'') test_loads)
       (JStr ''{\"node_list\": [\"A\", \"B\"]}'')
     = Inr (JObj [(''node_list'', JArr [JStr ''A'', JStr ''B''])])
   \<and> retrieve
       (test_env True (scripted_post ''{\"node_list\": [\"A\", \"B\"]}'' ''unused'') test_loads)
       tree0 (JStr ''{\"node_list\": [\"A\", \"B\"]}'')
     = Inl (KeyError (JStr ''thinking''))
   \<and> chat_with_pdf
       (test_env True (scripted_post ''{\"node_list\": [\"A\", \"B\"]}'' ''unused'') test_loads)
       cfg0 store0 ask
     = (Inl (HTTPException 500
               (DetailExc ''Error processing query: '' (KeyError (JStr ''thinking'')))),
        [selection_request
           (test_env True (scripted_post ''{\"node_list\": [\"A\", \"B\"]}'' ''unused'') test_loads)
           cfg0 ask tree0])"
proof -
  let ?sel = "''{\"node_list\": [\"A\", \"B\"]}''"
  let ?e = "test_env True (scripted_post ?sel ''unused'') test_loads"
  have p: "py_json_loads ?e (JStr ?sel) = Inr (JObj [(''node_list'', JArr [JStr ''A'', JStr ''B''])])"
    by (simp add: test_env_def test_loads_def)
  have r: "retrieve ?e tree0 (JStr ?sel) = Inl (KeyError (JStr ''thinking''))"
    by (simp add: retrieve_def test_env_def test_loads_def)
  have c: "chat_with_pdf ?e cfg0 store0 ask
     = (Inl (HTTPException 500
               (DetailExc ''Error processing query: '' (KeyError (JStr ''thinking'')))),
        [selection_request ?e cfg0 ask tree0])"
    by (simp add: chat_with_pdf_def fetch0 chat_try_def copy0 Let_def selection0 r
          selection_posts0)
  show ?thesis using p r c by (simp add: index0)
qed

section \<open>The selection prompt has no text, the index has all of it\<close>

















end
